theory Spec2Isabelle
  imports Main
begin

section \<open>The rules engine (chess.js) as a parameter\<close>

text \<open>
  Both user interfaces of the repository delegate every chess rule to the \<^verbatim>\<open>chess.js\<close>
  library, which is not part of the repository. The library enters the model as a record of
  functions over an opaque type \<open>'g\<close> of game objects. A method that mutates the object in
  place (\<^verbatim>\<open>move\<close>, \<^verbatim>\<open>undo\<close>) returns the mutated object. The FEN text is only ever
  passed from \<^verbatim>\<open>game.fen()\<close> to the constructor \<^verbatim>\<open>new Chess(fen)\<close>, so its type \<open>'f\<close>
  is a parameter as well.
\<close>

type_synonym square = string

datatype color = White | Black

datatype piece_symbol = Pawn | Knight | Bishop | Rook | Queen | King

record piece =
  ptype :: piece_symbol
  color :: color

text \<open>The argument of \<^verbatim>\<open>game.move\<close>: \<^verbatim>\<open>{ from: string; to: string; promotion?: string }\<close>.\<close>

record move_request =
  from_sq :: square
  to_sq :: square
  promotion :: "string option"

text \<open>The fields of a chess.js \<^verbatim>\<open>Move\<close> that the interfaces read.\<close>

record chess_move =
  move_from :: square
  move_to :: square
  san :: string

text \<open>
  \<open>move\<close> is \<open>None\<close> where \<^verbatim>\<open>game.move\<close> throws or returns a falsy value (both are caught by
  the callers below), and the mutated object with the resulting \<^verbatim>\<open>Move\<close> otherwise.
\<close>

record ('g, 'f) engine =
  Chess_new :: 'g
  Chess_fen :: "'f \<Rightarrow> 'g"
  fen :: "'g \<Rightarrow> 'f"
  turn :: "'g \<Rightarrow> color"
  get :: "'g \<Rightarrow> square \<Rightarrow> piece option"
  moves :: "'g \<Rightarrow> square \<Rightarrow> chess_move list"
  move :: "'g \<Rightarrow> move_request \<Rightarrow> ('g \<times> chess_move) option"
  undo :: "'g \<Rightarrow> 'g"
  inCheck :: "'g \<Rightarrow> bool"
  isCheckmate :: "'g \<Rightarrow> bool"
  isDraw :: "'g \<Rightarrow> bool"
  isGameOver :: "'g \<Rightarrow> bool"

text \<open>\<^verbatim>\<open>piece && piece.color === turn\<close>, with \<open>turn\<close> read from the game object \<open>g\<close>.\<close>

definition friendly :: "('g, 'f) engine \<Rightarrow> 'g \<Rightarrow> square \<Rightarrow> bool" where
  "friendly E g sq = (case get E g sq of None \<Rightarrow> False | Some p \<Rightarrow> color p = turn E g)"

text \<open>\<^verbatim>\<open>game.moves({ square, verbose: true }).map(m => m.to)\<close>\<close>

definition destinations :: "('g, 'f) engine \<Rightarrow> 'g \<Rightarrow> square \<Rightarrow> square list" where
  "destinations E g sq = map move_to (moves E g sq)"

text \<open>What a handler hands back to its caller: a boolean, or nothing at all.\<close>

datatype js_value = Undefined | Boolean bool


section \<open>The self-contained interface: \<^verbatim>\<open>src/App.tsx\<close>\<close>

text \<open>The four \<^verbatim>\<open>useState\<close> cells of the component.\<close>

record 'g app =
  game :: 'g
  selectedSquare :: "square option"
  lastMove :: "(square \<times> square) option"
  moveHistory :: "string list"

definition initial :: "('g, 'f) engine \<Rightarrow> 'g app" where
  "initial E = \<lparr>game = Chess_new E, selectedSquare = None, lastMove = None, moveHistory = []\<rparr>"

text \<open>
  \<^verbatim>\<open>makeMove\<close>: the \<^verbatim>\<open>try\<close> block commits the four state updates and returns \<^verbatim>\<open>true\<close>; a
  throw of \<^verbatim>\<open>game.move\<close> is caught and a falsy result falls through, both returning
  \<^verbatim>\<open>false\<close>.
\<close>

definition makeMove :: "('g, 'f) engine \<Rightarrow> 'g app \<Rightarrow> move_request \<Rightarrow> bool \<times> 'g app" where
  "makeMove E s m =
     (case move E (game s) m of
        None \<Rightarrow> (False, s)
      | Some (g', result) \<Rightarrow>
          (True, s\<lparr>game := Chess_fen E (fen E g'),
                   lastMove := Some (from_sq m, to_sq m),
                   moveHistory := moveHistory s @ [san result],
                   selectedSquare := None\<rparr>))"

text \<open>
  \<^verbatim>\<open>handleSquareClick\<close>. \<open>isGameOver\<close> and \<open>turn\<close> are the values computed from the game of
  the current render.
\<close>

definition handleSquareClick :: "('g, 'f) engine \<Rightarrow> 'g app \<Rightarrow> square \<Rightarrow> 'g app" where
  "handleSquareClick E s sq =
     (if isGameOver E (game s) then s
      else if selectedSquare s = Some sq then s\<lparr>selectedSquare := None\<rparr>
      else if friendly E (game s) sq then s\<lparr>selectedSquare := Some sq\<rparr>
      else (case selectedSquare s of
              None \<Rightarrow> s
            | Some sel \<Rightarrow>
                (let (moveSuccessful, s') =
                       makeMove E s \<lparr>from_sq = sel, to_sq = sq, promotion = Some ''q''\<rparr>
                 in if \<not> moveSuccessful \<and> friendly E (game s) sq
                    then s'\<lparr>selectedSquare := Some sq\<rparr>
                    else if \<not> moveSuccessful then s'\<lparr>selectedSquare := None\<rparr>
                    else s')))"

definition resetGame :: "('g, 'f) engine \<Rightarrow> 'g app \<Rightarrow> 'g app" where
  "resetGame E s =
     s\<lparr>game := Chess_new E, selectedSquare := None, lastMove := None, moveHistory := []\<rparr>"

definition getValidMoves :: "('g, 'f) engine \<Rightarrow> 'g app \<Rightarrow> square \<Rightarrow> square list" where
  "getValidMoves E s sq = destinations E (game s) sq"

text \<open>The memoised hint list, recomputed from \<open>selectedSquare\<close> and \<open>game\<close>.\<close>

definition validMoves :: "('g, 'f) engine \<Rightarrow> 'g app \<Rightarrow> square list" where
  "validMoves E s = (case selectedSquare s of None \<Rightarrow> [] | Some sq \<Rightarrow> getValidMoves E s sq)"

text \<open>The two controls wired to a handler: a board square and the New Game button.\<close>

datatype app_event = Click square | NewGame

fun app_step :: "('g, 'f) engine \<Rightarrow> 'g app \<Rightarrow> app_event \<Rightarrow> 'g app" where
  "app_step E s (Click sq) = handleSquareClick E s sq"
| "app_step E s NewGame = resetGame E s"

definition app_run :: "('g, 'f) engine \<Rightarrow> app_event list \<Rightarrow> 'g app" where
  "app_run E evs = foldl (app_step E) (initial E) evs"


section \<open>The interface with undo: \<^verbatim>\<open>unnamed/part_000\<close> and \<^verbatim>\<open>components/ChessBoard.tsx\<close>\<close>

text \<open>
  The second \<^verbatim>\<open>App\<close> component (names suffixed \<open>_p0\<close> where they clash with the first) owns
  \<open>game\<close>, \<open>moveHistory\<close>, \<open>status\<close> and \<open>gameEnded\<close>; the \<^verbatim>\<open>ChessBoard\<close> it renders owns
  \<open>selectedSquare\<close> (suffixed \<open>_cb\<close>) and \<open>hintSquares\<close>. The board stays mounted, so the six
  cells form one state.
\<close>

record 'g session =
  game_p0 :: 'g
  moveHistory_p0 :: "chess_move list"
  status :: string
  gameEnded :: bool
  selectedSquare_cb :: "square option"
  hintSquares :: "square list"

definition initial_p0 :: "('g, 'f) engine \<Rightarrow> 'g session" where
  "initial_p0 E =
     \<lparr>game_p0 = Chess_new E, moveHistory_p0 = [], status = ''White to move'',
      gameEnded = False, selectedSquare_cb = None, hintSquares = []\<rparr>"

text \<open>
  \<^verbatim>\<open>updateStatus\<close> reads the game object \<open>g\<close> of its closure: the object that \<^verbatim>\<open>game.move\<close>
  or \<^verbatim>\<open>game.undo\<close> has just mutated. It sets \<open>gameEnded\<close> to true and never to false.
\<close>

definition updateStatus :: "('g, 'f) engine \<Rightarrow> 'g \<Rightarrow> 'g session \<Rightarrow> 'g session" where
  "updateStatus E g s =
     (let turn_name = (if turn E g = White then ''White'' else ''Black'') in
      if isCheckmate E g
      then s\<lparr>status := ''Game Over - Checkmate! ''
                         @ (if turn_name = ''White'' then ''Black'' else ''White'') @ '' wins.'',
              gameEnded := True\<rparr>
      else if isDraw E g
      then s\<lparr>status := ''Game Over - Draw'', gameEnded := True\<rparr>
      else s\<lparr>status := turn_name @ '' to move''
                         @ (if inCheck E g then '' (Check!)'' else [])\<rparr>)"

text \<open>\<^verbatim>\<open>makeMove\<close> of this component has no \<^verbatim>\<open>return\<close>: a rejected move is swallowed.\<close>

definition makeMove_p0 ::
  "('g, 'f) engine \<Rightarrow> 'g session \<Rightarrow> move_request \<Rightarrow> js_value \<times> 'g session" where
  "makeMove_p0 E s m =
     (case move E (game_p0 s) m of
        None \<Rightarrow> (Undefined, s)
      | Some (g', result) \<Rightarrow>
          (Undefined,
           updateStatus E g'
             (s\<lparr>game_p0 := Chess_fen E (fen E g'),
                moveHistory_p0 := moveHistory_p0 s @ [result]\<rparr>)))"

text \<open>The board's own selection is not touched by \<^verbatim>\<open>resetGame\<close> or \<^verbatim>\<open>undoMove\<close>.\<close>

definition resetGame_p0 :: "('g, 'f) engine \<Rightarrow> 'g session \<Rightarrow> 'g session" where
  "resetGame_p0 E s =
     s\<lparr>game_p0 := Chess_new E, moveHistory_p0 := [], gameEnded := False,
       status := ''White to move''\<rparr>"

text \<open>\<^verbatim>\<open>undoMove\<close>; \<^verbatim>\<open>prev.slice(0, -1)\<close> drops the last entry and maps \<open>[]\<close> to \<open>[]\<close>.\<close>

definition undoMove :: "('g, 'f) engine \<Rightarrow> 'g session \<Rightarrow> js_value \<times> 'g session" where
  "undoMove E s =
     (let g' = undo E (game_p0 s) in
      (Undefined,
       updateStatus E g'
         (s\<lparr>game_p0 := Chess_fen E (fen E g'),
            moveHistory_p0 := butlast (moveHistory_p0 s)\<rparr>)))"

text \<open>
  The Undo button carries \<^verbatim>\<open>disabled={moveHistory.length === 0}\<close>: a press on the disabled
  button runs no handler.
\<close>

definition undo_button :: "('g, 'f) engine \<Rightarrow> 'g session \<Rightarrow> 'g session" where
  "undo_button E s = (if moveHistory_p0 s = [] then s else snd (undoMove E s))"

text \<open>
  The \<open>lastMove\<close> prop of the board, \<^verbatim>\<open>moveHistory[moveHistory.length - 1]\<close>: \<^verbatim>\<open>undefined\<close>
  for the empty history.
\<close>

definition lastMove_p0 :: "'g session \<Rightarrow> chess_move option" where
  "lastMove_p0 s = (if moveHistory_p0 s = [] then None else Some (last (moveHistory_p0 s)))"

text \<open>\<^verbatim>\<open>handleSquareClick\<close> of \<^verbatim>\<open>ChessBoard\<close>, with \<open>onMove\<close> bound to \<open>makeMove_p0\<close>.\<close>

definition handleSquareClick_cb :: "('g, 'f) engine \<Rightarrow> 'g session \<Rightarrow> square \<Rightarrow> 'g session" where
  "handleSquareClick_cb E s sq =
     (if selectedSquare_cb s = Some sq
      then s\<lparr>selectedSquare_cb := None, hintSquares := []\<rparr>
      else if friendly E (game_p0 s) sq
      then s\<lparr>selectedSquare_cb := Some sq, hintSquares := destinations E (game_p0 s) sq\<rparr>
      else (case selectedSquare_cb s of
              Some sel \<Rightarrow>
                (if sq \<in> set (hintSquares s)
                 then (snd (makeMove_p0 E s
                              \<lparr>from_sq = sel, to_sq = sq, promotion = Some ''q''\<rparr>))
                        \<lparr>selectedSquare_cb := None, hintSquares := []\<rparr>
                 else s\<lparr>selectedSquare_cb := None, hintSquares := []\<rparr>)
            | None \<Rightarrow> s\<lparr>selectedSquare_cb := None, hintSquares := []\<rparr>))"

datatype session_event = SquareClick square | NewGameClick | UndoClick

fun session_step :: "('g, 'f) engine \<Rightarrow> 'g session \<Rightarrow> session_event \<Rightarrow> 'g session" where
  "session_step E s (SquareClick sq) = handleSquareClick_cb E s sq"
| "session_step E s NewGameClick = resetGame_p0 E s"
| "session_step E s UndoClick = undo_button E s"

definition session_run :: "('g, 'f) engine \<Rightarrow> session_event list \<Rightarrow> 'g session" where
  "session_run E evs = foldl (session_step E) (initial_p0 E) evs"


section \<open>A concrete engine: chess.js along 1. f3 e5 2. g4 Qh4#\<close>

text \<open>
  To run the handlers on concrete inputs the parameter is instantiated with the answers
  chess.js gives on the five positions of the Fool's Mate line. A game object is its position
  together with the list of positions that \<^verbatim>\<open>undo\<close> can return to. A FEN describes a
  position and no earlier one, so the object built by \<^verbatim>\<open>new Chess(fen)\<close> has nothing to
  undo, and \<^verbatim>\<open>undo\<close> on such an object returns \<^verbatim>\<open>null\<close> and leaves it as it is. A legal
  move that leaves the line leads to a position (\<open>Other\<close>) whose board and side to move are
  known, and which is not analysed further.
\<close>

datatype position =
  Start | After_f3 | After_e5 | After_g4 | Mate | Other "(square \<times> piece) list" color

record chess =
  current :: position
  past :: "position list"

definition men :: "color \<Rightarrow> (square \<times> piece_symbol) list \<Rightarrow> (square \<times> piece) list" where
  "men c xs = map (\<lambda>(sq, t). (sq, \<lparr>ptype = t, color = c\<rparr>)) xs"

definition start_placement :: "(square \<times> piece) list" where
  "start_placement =
     men White [(''a1'', Rook), (''b1'', Knight), (''c1'', Bishop), (''d1'', Queen),
                (''e1'', King), (''f1'', Bishop), (''g1'', Knight), (''h1'', Rook),
                (''a2'', Pawn), (''b2'', Pawn), (''c2'', Pawn), (''d2'', Pawn),
                (''e2'', Pawn), (''f2'', Pawn), (''g2'', Pawn), (''h2'', Pawn)]
     @ men Black [(''a8'', Rook), (''b8'', Knight), (''c8'', Bishop), (''d8'', Queen),
                  (''e8'', King), (''f8'', Bishop), (''g8'', Knight), (''h8'', Rook),
                  (''a7'', Pawn), (''b7'', Pawn), (''c7'', Pawn), (''d7'', Pawn),
                  (''e7'', Pawn), (''f7'', Pawn), (''g7'', Pawn), (''h7'', Pawn)]"

definition relocate :: "square \<Rightarrow> square \<Rightarrow> (square \<times> piece) list \<Rightarrow> (square \<times> piece) list" where
  "relocate a b pl =
     (case map_of pl a of
        None \<Rightarrow> pl
      | Some p \<Rightarrow> (b, p) # filter (\<lambda>(q, _). q \<noteq> a \<and> q \<noteq> b) pl)"

fun placement_of :: "position \<Rightarrow> (square \<times> piece) list" where
  "placement_of Start = start_placement"
| "placement_of After_f3 = relocate ''f2'' ''f3'' start_placement"
| "placement_of After_e5 = relocate ''e7'' ''e5'' (relocate ''f2'' ''f3'' start_placement)"
| "placement_of After_g4 =
     relocate ''g2'' ''g4'' (relocate ''e7'' ''e5'' (relocate ''f2'' ''f3'' start_placement))"
| "placement_of Mate =
     relocate ''d8'' ''h4''
       (relocate ''g2'' ''g4'' (relocate ''e7'' ''e5'' (relocate ''f2'' ''f3'' start_placement)))"
| "placement_of (Other pl c) = pl"

fun side_of :: "position \<Rightarrow> color" where
  "side_of Start = White"
| "side_of After_f3 = Black"
| "side_of After_e5 = White"
| "side_of After_g4 = Black"
| "side_of Mate = White"
| "side_of (Other pl c) = c"

text \<open>The legal destinations of every piece that can move, position by position.\<close>

fun legal_table :: "position \<Rightarrow> (square \<times> square list) list" where
  "legal_table Start =
     [(''a2'', [''a3'', ''a4'']), (''b2'', [''b3'', ''b4'']), (''c2'', [''c3'', ''c4'']),
      (''d2'', [''d3'', ''d4'']), (''e2'', [''e3'', ''e4'']), (''f2'', [''f3'', ''f4'']),
      (''g2'', [''g3'', ''g4'']), (''h2'', [''h3'', ''h4'']),
      (''b1'', [''a3'', ''c3'']), (''g1'', [''f3'', ''h3''])]"
| "legal_table After_f3 =
     [(''a7'', [''a6'', ''a5'']), (''b7'', [''b6'', ''b5'']), (''c7'', [''c6'', ''c5'']),
      (''d7'', [''d6'', ''d5'']), (''e7'', [''e6'', ''e5'']), (''f7'', [''f6'', ''f5'']),
      (''g7'', [''g6'', ''g5'']), (''h7'', [''h6'', ''h5'']),
      (''b8'', [''a6'', ''c6'']), (''g8'', [''f6'', ''h6''])]"
| "legal_table After_e5 =
     [(''a2'', [''a3'', ''a4'']), (''b2'', [''b3'', ''b4'']), (''c2'', [''c3'', ''c4'']),
      (''d2'', [''d3'', ''d4'']), (''e2'', [''e3'', ''e4'']), (''f3'', [''f4'']),
      (''g2'', [''g3'', ''g4'']), (''h2'', [''h3'', ''h4'']),
      (''b1'', [''a3'', ''c3'']), (''g1'', [''h3'']), (''e1'', [''f2''])]"
| "legal_table After_g4 =
     [(''a7'', [''a6'', ''a5'']), (''b7'', [''b6'', ''b5'']), (''c7'', [''c6'', ''c5'']),
      (''d7'', [''d6'', ''d5'']), (''e5'', [''e4'']), (''f7'', [''f6'', ''f5'']),
      (''g7'', [''g6'', ''g5'']), (''h7'', [''h6'', ''h5'']),
      (''b8'', [''a6'', ''c6'']), (''g8'', [''e7'', ''f6'', ''h6'']),
      (''f8'', [''e7'', ''d6'', ''c5'', ''b4'', ''a3'']),
      (''d8'', [''e7'', ''f6'', ''g5'', ''h4'']), (''e8'', [''e7''])]"
| "legal_table Mate = []"
| "legal_table (Other pl c) = []"

definition legal :: "position \<Rightarrow> square \<Rightarrow> square list" where
  "legal p sq = (case map_of (legal_table p) sq of None \<Rightarrow> [] | Some ds \<Rightarrow> ds)"

definition successor :: "position \<Rightarrow> square \<Rightarrow> square \<Rightarrow> position" where
  "successor p a b =
     (if p = Start \<and> a = ''f2'' \<and> b = ''f3'' then After_f3
      else if p = After_f3 \<and> a = ''e7'' \<and> b = ''e5'' then After_e5
      else if p = After_e5 \<and> a = ''g2'' \<and> b = ''g4'' then After_g4
      else if p = After_g4 \<and> a = ''d8'' \<and> b = ''h4'' then Mate
      else Other (relocate a b (placement_of p))
                 (if side_of p = White then Black else White))"

fun letter :: "piece_symbol \<Rightarrow> string" where
  "letter Pawn = []"
| "letter Knight = ''N''"
| "letter Bishop = ''B''"
| "letter Rook = ''R''"
| "letter Queen = ''Q''"
| "letter King = ''K''"

definition san_of :: "position \<Rightarrow> square \<Rightarrow> square \<Rightarrow> string" where
  "san_of p a b =
     (case map_of (placement_of p) a of
        None \<Rightarrow> b
      | Some pc \<Rightarrow> letter (ptype pc) @ b @ (if successor p a b = Mate then ''#'' else []))"

definition played :: "position \<Rightarrow> square \<Rightarrow> square \<Rightarrow> chess_move" where
  "played p a b = \<lparr>move_from = a, move_to = b, san = san_of p a b\<rparr>"

definition line_move :: "chess \<Rightarrow> move_request \<Rightarrow> (chess \<times> chess_move) option" where
  "line_move g m =
     (if to_sq m \<in> set (legal (current g) (from_sq m))
      then Some (\<lparr>current = successor (current g) (from_sq m) (to_sq m),
                  past = current g # past g\<rparr>,
                 played (current g) (from_sq m) (to_sq m))
      else None)"

definition line_undo :: "chess \<Rightarrow> chess" where
  "line_undo g = (case past g of [] \<Rightarrow> g | p # ps \<Rightarrow> \<lparr>current = p, past = ps\<rparr>)"

definition line_engine :: "(chess, position) engine" where
  "line_engine =
     \<lparr>Chess_new = \<lparr>current = Start, past = []\<rparr>,
      Chess_fen = (\<lambda>f. \<lparr>current = f, past = []\<rparr>),
      fen = current,
      turn = (\<lambda>g. side_of (current g)),
      get = (\<lambda>g. map_of (placement_of (current g))),
      moves = (\<lambda>g sq. map (played (current g) sq) (legal (current g) sq)),
      move = line_move,
      undo = line_undo,
      inCheck = (\<lambda>g. current g = Mate),
      isCheckmate = (\<lambda>g. current g = Mate),
      isDraw = (\<lambda>g. False),
      isGameOver = (\<lambda>g. current g = Mate)\<rparr>"

text \<open>The eight clicks that play the line, and the submission of e2-e5 at the start.\<close>

definition fools_mate_clicks :: "square list" where
  "fools_mate_clicks = [''f2'', ''f3'', ''e7'', ''e5'', ''g2'', ''g4'', ''d8'', ''h4'']"

definition e2e5 :: move_request where
  "e2e5 = \<lparr>from_sq = ''e2'', to_sq = ''e5'', promotion = Some ''q''\<rparr>"

definition f2f3 :: move_request where
  "f2f3 = \<lparr>from_sq = ''f2'', to_sq = ''f3'', promotion = Some ''q''\<rparr>"


section \<open>Invariants of the two selection controllers\<close>

text \<open>
  In \<^verbatim>\<open>src/App.tsx\<close>: once the game is over nothing is selected, and a selected square holds
  a piece of the side to move.
\<close>

definition app_inv :: "('g, 'f) engine \<Rightarrow> 'g app \<Rightarrow> bool" where
  "app_inv E s =
     ((isGameOver E (game s) \<longrightarrow> selectedSquare s = None) \<and>
      (\<forall>a. selectedSquare s = Some a \<longrightarrow> friendly E (game s) a))"

text \<open>
  In \<^verbatim>\<open>ChessBoard\<close>: the hints are those of the selected square, which holds a piece of the
  side to move; with no selection there are no hints.
\<close>

definition board_inv :: "('g, 'f) engine \<Rightarrow> 'g session \<Rightarrow> bool" where
  "board_inv E t =
     (case selectedSquare_cb t of
        None \<Rightarrow> hintSquares t = []
      | Some a \<Rightarrow> friendly E (game_p0 t) a \<and> hintSquares t = destinations E (game_p0 t) a)"


text \<open>
  chess.js checks a submitted move against the moves it generates itself: a destination it
  does not list for the origin square is rejected. The engine is a parameter, so this is
  stated as a property of the engine at a game object.
\<close>

definition accepts_only_listed :: "('g, 'f) engine \<Rightarrow> 'g \<Rightarrow> bool" where
  "accepts_only_listed E g =
     (\<forall>m. move E g m \<noteq> None \<longrightarrow> to_sq m \<in> set (destinations E g (from_sq m)))"

text \<open>The states used as concrete inputs below.\<close>

definition e2_selected_cb :: "chess session" where
  "e2_selected_cb = session_run line_engine [SquareClick ''e2'']"

definition after_mate :: "chess app" where
  "after_mate = app_run line_engine (map Click fools_mate_clicks)"

definition after_mate_p0 :: "chess session" where
  "after_mate_p0 = session_run line_engine (map SquareClick fools_mate_clicks)"

definition after_reset_p0 :: "chess session" where
  "after_reset_p0 =
     session_run line_engine
       [SquareClick ''f2'', SquareClick ''f3'', SquareClick ''e7'', NewGameClick]"

definition after_f3_p0 :: "chess session" where
  "after_f3_p0 = session_run line_engine [SquareClick ''f2'', SquareClick ''f3'']"


section \<open>Move submission\<close>

lemma makeMove_rejected: "move E (game s) m = None \<Longrightarrow> makeMove E s m = (False, s)"
  by (simp add: makeMove_def)

lemma makeMove_accepted:
  "move E (game s) m = Some (g', r) \<Longrightarrow>
   makeMove E s m =
     (True, s\<lparr>game := Chess_fen E (fen E g'), lastMove := Some (from_sq m, to_sq m),
              moveHistory := moveHistory s @ [san r], selectedSquare := None\<rparr>)"
  by (simp add: makeMove_def)

lemma makeMove_p0_rejected:
  "move E (game_p0 t) m = None \<Longrightarrow> makeMove_p0 E t m = (Undefined, t)"
  by (simp add: makeMove_p0_def)

lemma updateStatus_frame:
  "game_p0 (updateStatus E g t) = game_p0 t"
  "moveHistory_p0 (updateStatus E g t) = moveHistory_p0 t"
  "selectedSquare_cb (updateStatus E g t) = selectedSquare_cb t"
  "hintSquares (updateStatus E g t) = hintSquares t"
  by (simp_all add: updateStatus_def Let_def)

lemma updateStatus_gameEnded: "gameEnded t \<Longrightarrow> gameEnded (updateStatus E g t)"
  by (simp add: updateStatus_def Let_def)

lemma makeMove_p0_accepted:
  "move E (game_p0 t) m = Some (g', r) \<Longrightarrow>
   game_p0 (snd (makeMove_p0 E t m)) = Chess_fen E (fen E g') \<and>
   moveHistory_p0 (snd (makeMove_p0 E t m)) = moveHistory_p0 t @ [r] \<and>
   selectedSquare_cb (snd (makeMove_p0 E t m)) = selectedSquare_cb t \<and>
   hintSquares (snd (makeMove_p0 E t m)) = hintSquares t"
  by (simp add: makeMove_p0_def updateStatus_frame)

text \<open>Facts about the concrete engine at the start of the game.\<close>

lemma line_start_e2e5: "move line_engine (Chess_new line_engine) e2e5 = None"
  by (simp add: line_engine_def line_move_def e2e5_def legal_def)

lemma line_start_f2f3:
  "move line_engine (Chess_new line_engine) f2f3
     = Some (\<lparr>current = After_f3, past = [Start]\<rparr>, played Start ''f2'' ''f3'')"
  by (simp add: line_engine_def line_move_def f2f3_def legal_def successor_def)

text \<open>
  C2 (as amended). A submission that the engine rejects raises nothing and leaves the whole
  state as it was, and with it the snapshot, the last move and the history: \<open>makeMove\<close> of
  \<^verbatim>\<open>src/App.tsx\<close> returns \<open>false\<close>, \<open>makeMove\<close> of the interface with undo returns no value.
\<close>

theorem rejected_move_changes_nothing:
  "(move E (game s) m = None \<longrightarrow> makeMove E s m = (False, s)) \<and>
   (move E (game_p0 t) m = None \<longrightarrow> makeMove_p0 E t m = (Undefined, t))"
  by (simp add: makeMove_rejected makeMove_p0_rejected)

theorem rejected_move_changes_nothing_witness:
  "move line_engine (game (initial line_engine)) e2e5 = None \<and>
   makeMove line_engine (initial line_engine) e2e5 = (False, initial line_engine) \<and>
   move line_engine (game_p0 (initial_p0 line_engine)) e2e5 = None \<and>
   makeMove_p0 line_engine (initial_p0 line_engine) e2e5 = (Undefined, initial_p0 line_engine)"
proof -
  have a: "move line_engine (game (initial line_engine)) e2e5 = None"
    by (simp add: initial_def line_start_e2e5)
  have b: "move line_engine (game_p0 (initial_p0 line_engine)) e2e5 = None"
    by (simp add: initial_p0_def line_start_e2e5)
  from a b
    rejected_move_changes_nothing
      [of line_engine "initial line_engine" e2e5 "initial_p0 line_engine"]
  show ?thesis by blast
qed

text \<open>
  C2, counterexample to the claim as stated. In the interface with undo the rejected
  submission e2-e5 yields \<^verbatim>\<open>undefined\<close>, exactly what the accepted submission f2-f3 yields:
  the caller receives no failure value.
\<close>

theorem rejected_move_no_failure_value:
  "move line_engine (game_p0 (initial_p0 line_engine)) e2e5 = None \<and>
   move line_engine (game_p0 (initial_p0 line_engine)) f2f3 \<noteq> None \<and>
   fst (makeMove_p0 line_engine (initial_p0 line_engine) e2e5) \<noteq> Boolean False \<and>
   fst (makeMove_p0 line_engine (initial_p0 line_engine) e2e5)
     = fst (makeMove_p0 line_engine (initial_p0 line_engine) f2f3)"
  by (simp add: initial_p0_def line_start_e2e5 line_start_f2f3 makeMove_p0_def)

text \<open>
  C3. A submission that the engine accepts makes \<open>makeMove\<close> of \<^verbatim>\<open>src/App.tsx\<close> return
  \<open>true\<close> with a history one entry longer, no selected square and no hints, the last move set
  to the endpoints of the submission, and the game rebuilt from the engine's new position.
  The commit is one unit: a click either leaves snapshot, last move and history all as they
  were, or replaces all three together.
\<close>

theorem accepted_move_commits:
  "(move E (game s) m = Some (g', r) \<longrightarrow>
      fst (makeMove E s m) \<and>
      length (moveHistory (snd (makeMove E s m))) = length (moveHistory s) + 1 \<and>
      moveHistory (snd (makeMove E s m)) = moveHistory s @ [san r] \<and>
      selectedSquare (snd (makeMove E s m)) = None \<and>
      validMoves E (snd (makeMove E s m)) = [] \<and>
      lastMove (snd (makeMove E s m)) = Some (from_sq m, to_sq m) \<and>
      game (snd (makeMove E s m)) = Chess_fen E (fen E g')) \<and>
   ((game (handleSquareClick E s sq) = game s \<and>
     lastMove (handleSquareClick E s sq) = lastMove s \<and>
     moveHistory (handleSquareClick E s sq) = moveHistory s) \<or>
    (\<exists>sel h x. selectedSquare s = Some sel \<and>
       move E (game s) \<lparr>from_sq = sel, to_sq = sq, promotion = Some ''q''\<rparr> = Some (h, x) \<and>
       game (handleSquareClick E s sq) = Chess_fen E (fen E h) \<and>
       lastMove (handleSquareClick E s sq) = Some (sel, sq) \<and>
       moveHistory (handleSquareClick E s sq) = moveHistory s @ [san x] \<and>
       selectedSquare (handleSquareClick E s sq) = None))"
proof (rule conjI)
  show "move E (game s) m = Some (g', r) \<longrightarrow>
      fst (makeMove E s m) \<and>
      length (moveHistory (snd (makeMove E s m))) = length (moveHistory s) + 1 \<and>
      moveHistory (snd (makeMove E s m)) = moveHistory s @ [san r] \<and>
      selectedSquare (snd (makeMove E s m)) = None \<and>
      validMoves E (snd (makeMove E s m)) = [] \<and>
      lastMove (snd (makeMove E s m)) = Some (from_sq m, to_sq m) \<and>
      game (snd (makeMove E s m)) = Chess_fen E (fen E g')"
    by (simp add: makeMove_accepted validMoves_def)
next
  let ?m = "\<lparr>from_sq = the (selectedSquare s), to_sq = sq, promotion = Some ''q''\<rparr>"
  show "(game (handleSquareClick E s sq) = game s \<and>
     lastMove (handleSquareClick E s sq) = lastMove s \<and>
     moveHistory (handleSquareClick E s sq) = moveHistory s) \<or>
    (\<exists>sel h x. selectedSquare s = Some sel \<and>
       move E (game s) \<lparr>from_sq = sel, to_sq = sq, promotion = Some ''q''\<rparr> = Some (h, x) \<and>
       game (handleSquareClick E s sq) = Chess_fen E (fen E h) \<and>
       lastMove (handleSquareClick E s sq) = Some (sel, sq) \<and>
       moveHistory (handleSquareClick E s sq) = moveHistory s @ [san x] \<and>
       selectedSquare (handleSquareClick E s sq) = None)"
  proof (cases "move E (game s) ?m")
    case None
    then show ?thesis
      by (auto simp: handleSquareClick_def makeMove_def split: option.splits)
  next
    case (Some a)
    then show ?thesis
      by (cases a) (auto simp: handleSquareClick_def makeMove_def split: option.splits)
  qed
qed

theorem accepted_move_commits_witness:
  "move line_engine (game (initial line_engine)) f2f3
     = Some (\<lparr>current = After_f3, past = [Start]\<rparr>, played Start ''f2'' ''f3'') \<and>
   fst (makeMove line_engine (initial line_engine) f2f3) \<and>
   length (moveHistory (snd (makeMove line_engine (initial line_engine) f2f3)))
     = length (moveHistory (initial line_engine)) + 1 \<and>
   selectedSquare (snd (makeMove line_engine (initial line_engine) f2f3)) = None \<and>
   lastMove (snd (makeMove line_engine (initial line_engine) f2f3)) = Some (''f2'', ''f3'')"
proof -
  have a: "move line_engine (game (initial line_engine)) f2f3
     = Some (\<lparr>current = After_f3, past = [Start]\<rparr>, played Start ''f2'' ''f3'')"
    by (simp add: initial_def line_start_f2f3)
  have b: "from_sq f2f3 = ''f2''" "to_sq f2f3 = ''f3''"
    by (simp_all add: f2f3_def)
  from a b
    accepted_move_commits
      [of line_engine "initial line_engine" f2f3 "\<lparr>current = After_f3, past = [Start]\<rparr>"
          "played Start ''f2'' ''f3''" "''f3''"]
  show ?thesis by simp
qed


section \<open>Selection\<close>

lemma friendly_move_update [simp]: "friendly (E\<lparr>move := mv\<rparr>) g sq = friendly E g sq"
  by (simp add: friendly_def split: option.splits)

lemma destinations_move_update [simp]:
  "destinations (E\<lparr>move := mv\<rparr>) g sq = destinations E g sq"
  by (simp add: destinations_def)

lemma app_inv_initial: "app_inv E (initial E)"
  by (simp add: app_inv_def initial_def)

lemma app_inv_click: "app_inv E s \<Longrightarrow> app_inv E (handleSquareClick E s sq)"
  by (auto simp: app_inv_def handleSquareClick_def makeMove_def split: option.splits)

lemma app_inv_reset: "app_inv E (resetGame E s)"
  by (simp add: app_inv_def resetGame_def)

lemma app_inv_step: "app_inv E s \<Longrightarrow> app_inv E (app_step E s ev)"
  by (cases ev) (simp_all add: app_inv_click app_inv_reset)

lemma app_inv_run: "app_inv E (app_run E evs)"
proof (induction evs rule: rev_induct)
  case Nil
  show ?case by (simp add: app_run_def app_inv_initial)
next
  case (snoc ev evs)
  then show ?case by (simp add: app_run_def app_inv_step)
qed

lemma selected_not_over:
  "selectedSquare (app_run E evs) = Some a \<Longrightarrow> \<not> isGameOver E (game (app_run E evs))"
  using app_inv_run [of E evs] by (auto simp: app_inv_def)

lemma selected_friendly:
  "selectedSquare (app_run E evs) = Some a \<Longrightarrow> friendly E (game (app_run E evs)) a"
  using app_inv_run [of E evs] by (auto simp: app_inv_def)

lemma game_over_refuses_click: "isGameOver E (game s) \<Longrightarrow> handleSquareClick E s sq = s"
  by (simp add: handleSquareClick_def)

lemma click_friendly:
  "\<not> isGameOver E (game s) \<Longrightarrow> friendly E (game s) sq \<Longrightarrow> selectedSquare s \<noteq> Some sq \<Longrightarrow>
   handleSquareClick E s sq = s\<lparr>selectedSquare := Some sq\<rparr>"
  by (simp add: handleSquareClick_def)

lemma click_friendly_cb:
  "friendly E (game_p0 t) sq \<Longrightarrow> selectedSquare_cb t \<noteq> Some sq \<Longrightarrow>
   handleSquareClick_cb E t sq =
     t\<lparr>selectedSquare_cb := Some sq, hintSquares := destinations E (game_p0 t) sq\<rparr>"
  by (simp add: handleSquareClick_cb_def)

lemma click_unlisted:
  "\<not> isGameOver E (game s) \<Longrightarrow> selectedSquare s = Some a \<Longrightarrow> \<not> friendly E (game s) sq \<Longrightarrow>
   move E (game s) \<lparr>from_sq = a, to_sq = sq, promotion = Some ''q''\<rparr> = None \<Longrightarrow>
   handleSquareClick E s sq = s\<lparr>selectedSquare := None\<rparr>"
  by (simp add: handleSquareClick_def makeMove_def)

lemma click_unhinted_cb:
  "\<not> friendly E (game_p0 t) sq \<Longrightarrow> sq \<notin> set (hintSquares t) \<Longrightarrow>
   handleSquareClick_cb E t sq = t\<lparr>selectedSquare_cb := None, hintSquares := []\<rparr>"
  by (simp add: handleSquareClick_cb_def split: option.splits)

lemma board_inv_click: "board_inv E (handleSquareClick_cb E t sq)"
  by (simp add: board_inv_def handleSquareClick_cb_def split: option.splits)

lemma board_inv_clicks: "board_inv E (foldl (handleSquareClick_cb E) (initial_p0 E) sqs)"
proof (induction sqs rule: rev_induct)
  case Nil
  show ?case by (simp add: board_inv_def initial_p0_def)
next
  case (snoc sq sqs)
  show ?case by (simp add: board_inv_click)
qed


lemma unlisted_rejected:
  "accepts_only_listed E g \<Longrightarrow> to_sq m \<notin> set (destinations E g (from_sq m)) \<Longrightarrow>
   move E g m = None"
  unfolding accepts_only_listed_def by blast

lemma line_engine_listed: "accepts_only_listed line_engine g"
  by (simp add: accepts_only_listed_def destinations_def line_engine_def line_move_def
        played_def comp_def)

text \<open>
  C7. With a square selected, a click on a different square that holds a piece of the side to
  move selects that square instead, whether or not it is among the hints. The hints become
  the destinations of the moves the engine generates for the new square at the current game
  (\<open>moves E g sq\<close>, each mapped to its \<open>to\<close> field), no more and no fewer; nothing else in the
  state changes (snapshot, history and last move are as before), and the outcome does not
  depend on the engine's \<open>move\<close> function: no move is submitted. In \<^verbatim>\<open>src/App.tsx\<close> the
  states are those reached from the initial state by clicks and resets; in \<^verbatim>\<open>ChessBoard\<close>
  the state is arbitrary.
\<close>

theorem reselect_own_piece:
  "(selectedSquare (app_run E evs) = Some a \<and> sq \<noteq> a \<and> friendly E (game (app_run E evs)) sq
      \<longrightarrow>
      handleSquareClick E (app_run E evs) sq = (app_run E evs)\<lparr>selectedSquare := Some sq\<rparr> \<and>
      validMoves E (handleSquareClick E (app_run E evs) sq)
        = destinations E (game (app_run E evs)) sq \<and>
      validMoves E (handleSquareClick E (app_run E evs) sq)
        = map move_to (moves E (game (app_run E evs)) sq) \<and>
      set (validMoves E (handleSquareClick E (app_run E evs) sq))
        = move_to ` set (moves E (game (app_run E evs)) sq) \<and>
      game (handleSquareClick E (app_run E evs) sq) = game (app_run E evs) \<and>
      moveHistory (handleSquareClick E (app_run E evs) sq) = moveHistory (app_run E evs) \<and>
      lastMove (handleSquareClick E (app_run E evs) sq) = lastMove (app_run E evs) \<and>
      handleSquareClick (E\<lparr>move := mv\<rparr>) (app_run E evs) sq
        = handleSquareClick E (app_run E evs) sq) \<and>
   (selectedSquare_cb t = Some b \<and> sq \<noteq> b \<and> friendly E (game_p0 t) sq
      \<longrightarrow>
      handleSquareClick_cb E t sq =
        t\<lparr>selectedSquare_cb := Some sq, hintSquares := destinations E (game_p0 t) sq\<rparr> \<and>
      selectedSquare_cb (handleSquareClick_cb E t sq) = Some sq \<and>
      hintSquares (handleSquareClick_cb E t sq) = map move_to (moves E (game_p0 t) sq) \<and>
      set (hintSquares (handleSquareClick_cb E t sq)) = move_to ` set (moves E (game_p0 t) sq) \<and>
      game_p0 (handleSquareClick_cb E t sq) = game_p0 t \<and>
      moveHistory_p0 (handleSquareClick_cb E t sq) = moveHistory_p0 t \<and>
      lastMove_p0 (handleSquareClick_cb E t sq) = lastMove_p0 t \<and>
      handleSquareClick_cb (E\<lparr>move := mv\<rparr>) t sq = handleSquareClick_cb E t sq)"
proof (intro conjI impI)
  assume h: "selectedSquare (app_run E evs) = Some a \<and> sq \<noteq> a \<and>
             friendly E (game (app_run E evs)) sq"
  let ?s = "app_run E evs"
  from h have live: "\<not> isGameOver E (game ?s)" by (simp add: selected_not_over)
  from h have other: "selectedSquare ?s \<noteq> Some sq" by auto
  from h live other show eq: "handleSquareClick E ?s sq = ?s\<lparr>selectedSquare := Some sq\<rparr>"
    by (simp add: click_friendly)
  show "validMoves E (handleSquareClick E ?s sq) = destinations E (game ?s) sq"
    by (simp add: eq validMoves_def getValidMoves_def)
  show "validMoves E (handleSquareClick E ?s sq) = map move_to (moves E (game ?s) sq)"
    by (simp add: eq validMoves_def getValidMoves_def destinations_def)
  show "set (validMoves E (handleSquareClick E ?s sq)) = move_to ` set (moves E (game ?s) sq)"
    by (simp add: eq validMoves_def getValidMoves_def destinations_def)
  show "game (handleSquareClick E ?s sq) = game ?s" by (simp add: eq)
  show "moveHistory (handleSquareClick E ?s sq) = moveHistory ?s" by (simp add: eq)
  show "lastMove (handleSquareClick E ?s sq) = lastMove ?s" by (simp add: eq)
  from h live other have "handleSquareClick (E\<lparr>move := mv\<rparr>) ?s sq = ?s\<lparr>selectedSquare := Some sq\<rparr>"
    by (simp add: click_friendly)
  with eq show "handleSquareClick (E\<lparr>move := mv\<rparr>) ?s sq = handleSquareClick E ?s sq"
    by simp
next
  assume h: "selectedSquare_cb t = Some b \<and> sq \<noteq> b \<and> friendly E (game_p0 t) sq"
  then have other: "selectedSquare_cb t \<noteq> Some sq" by auto
  from h other show eq: "handleSquareClick_cb E t sq =
        t\<lparr>selectedSquare_cb := Some sq, hintSquares := destinations E (game_p0 t) sq\<rparr>"
    by (simp add: click_friendly_cb)
  show "selectedSquare_cb (handleSquareClick_cb E t sq) = Some sq" by (simp add: eq)
  show "hintSquares (handleSquareClick_cb E t sq) = map move_to (moves E (game_p0 t) sq)"
    by (simp add: eq destinations_def)
  show "set (hintSquares (handleSquareClick_cb E t sq)) = move_to ` set (moves E (game_p0 t) sq)"
    by (simp add: eq destinations_def)
  show "game_p0 (handleSquareClick_cb E t sq) = game_p0 t" by (simp add: eq)
  show "moveHistory_p0 (handleSquareClick_cb E t sq) = moveHistory_p0 t" by (simp add: eq)
  show "lastMove_p0 (handleSquareClick_cb E t sq) = lastMove_p0 t"
    by (simp add: eq lastMove_p0_def)
  from h other have "handleSquareClick_cb (E\<lparr>move := mv\<rparr>) t sq =
        t\<lparr>selectedSquare_cb := Some sq, hintSquares := destinations E (game_p0 t) sq\<rparr>"
    by (simp add: click_friendly_cb)
  with eq show "handleSquareClick_cb (E\<lparr>move := mv\<rparr>) t sq = handleSquareClick_cb E t sq"
    by simp
qed

lemma e2_selected_facts:
  "selectedSquare (app_run line_engine [Click ''e2'']) = Some ''e2''"
  "friendly line_engine (game (app_run line_engine [Click ''e2''])) ''g1''"
  "\<not> friendly line_engine (game (app_run line_engine [Click ''e2''])) ''e5''"
  "''e5'' \<notin> set (validMoves line_engine (app_run line_engine [Click ''e2'']))"
  "''g1'' \<notin> set (validMoves line_engine (app_run line_engine [Click ''e2'']))"
  "validMoves line_engine (app_run line_engine [Click ''e2'']) = [''e3'', ''e4'']"
  by code_simp+

lemma e2_selected_cb_facts:
  "selectedSquare_cb e2_selected_cb = Some ''e2''"
  "friendly line_engine (game_p0 e2_selected_cb) ''g1''"
  "\<not> friendly line_engine (game_p0 e2_selected_cb) ''e5''"
  "''e5'' \<notin> set (hintSquares e2_selected_cb)"
  "''g1'' \<notin> set (hintSquares e2_selected_cb)"
  "hintSquares e2_selected_cb = [''e3'', ''e4'']"
  by code_simp+

lemma g1_moves_at_start:
  "map move_to (moves line_engine (game (app_run line_engine [Click ''e2''])) ''g1'')
     = [''f3'', ''h3'']"
  "map move_to (moves line_engine (game_p0 e2_selected_cb) ''g1'') = [''f3'', ''h3'']"
  by code_simp+

theorem reselect_own_piece_witness:
  "selectedSquare (app_run line_engine [Click ''e2'']) = Some ''e2'' \<and> ''g1'' \<noteq> ''e2'' \<and>
   friendly line_engine (game (app_run line_engine [Click ''e2''])) ''g1'' \<and>
   validMoves line_engine (app_run line_engine [Click ''e2'']) = [''e3'', ''e4''] \<and>
   handleSquareClick line_engine (app_run line_engine [Click ''e2'']) ''g1''
     = (app_run line_engine [Click ''e2''])\<lparr>selectedSquare := Some ''g1''\<rparr> \<and>
   validMoves line_engine (handleSquareClick line_engine (app_run line_engine [Click ''e2'']) ''g1'')
     = [''f3'', ''h3''] \<and>
   selectedSquare_cb e2_selected_cb = Some ''e2'' \<and>
   friendly line_engine (game_p0 e2_selected_cb) ''g1'' \<and>
   hintSquares e2_selected_cb = [''e3'', ''e4''] \<and>
   selectedSquare_cb (handleSquareClick_cb line_engine e2_selected_cb ''g1'') = Some ''g1'' \<and>
   hintSquares (handleSquareClick_cb line_engine e2_selected_cb ''g1'') = [''f3'', ''h3''] \<and>
   moveHistory_p0 (handleSquareClick_cb line_engine e2_selected_cb ''g1'')
     = moveHistory_p0 e2_selected_cb"
proof -
  have ne: "''g1'' \<noteq> ''e2''" by simp
  from ne e2_selected_facts e2_selected_cb_facts g1_moves_at_start
    reselect_own_piece
      [of line_engine "[Click ''e2'']" "''e2''" "''g1''" "move line_engine"
          e2_selected_cb "''e2''"]
  show ?thesis by metis
qed

text \<open>
  C8. With a square selected, a click on a square that holds no piece of the side to move and
  is not among the hints cancels the selection: no square is selected, there are no hints,
  and the rest of the state (snapshot, history, last move) is as before. \<^verbatim>\<open>ChessBoard\<close>
  decides this from its hint list; \<^verbatim>\<open>src/App.tsx\<close> submits the move and relies on the
  engine to reject a destination it does not list.
\<close>

theorem cancel_selection:
  "(selectedSquare (app_run E evs) = Some a \<and> \<not> friendly E (game (app_run E evs)) sq \<and>
    sq \<notin> set (validMoves E (app_run E evs)) \<and> accepts_only_listed E (game (app_run E evs))
      \<longrightarrow>
      handleSquareClick E (app_run E evs) sq = (app_run E evs)\<lparr>selectedSquare := None\<rparr> \<and>
      validMoves E (handleSquareClick E (app_run E evs) sq) = []) \<and>
   (selectedSquare_cb t = Some b \<and> \<not> friendly E (game_p0 t) sq \<and> sq \<notin> set (hintSquares t)
      \<longrightarrow>
      handleSquareClick_cb E t sq = t\<lparr>selectedSquare_cb := None, hintSquares := []\<rparr> \<and>
      lastMove_p0 (handleSquareClick_cb E t sq) = lastMove_p0 t)"
proof (intro conjI impI)
  assume h: "selectedSquare (app_run E evs) = Some a \<and> \<not> friendly E (game (app_run E evs)) sq \<and>
    sq \<notin> set (validMoves E (app_run E evs)) \<and> accepts_only_listed E (game (app_run E evs))"
  let ?s = "app_run E evs"
  let ?m = "\<lparr>from_sq = a, to_sq = sq, promotion = Some ''q''\<rparr>"
  from h have live: "\<not> isGameOver E (game ?s)" by (simp add: selected_not_over)
  from h have "sq \<notin> set (destinations E (game ?s) a)"
    by (simp add: validMoves_def getValidMoves_def)
  with h have rejected: "move E (game ?s) ?m = None"
    by (intro unlisted_rejected) simp_all
  from h live rejected show eq: "handleSquareClick E ?s sq = ?s\<lparr>selectedSquare := None\<rparr>"
    by (simp add: click_unlisted)
  show "validMoves E (handleSquareClick E ?s sq) = []"
    by (simp add: eq validMoves_def)
next
  assume h: "selectedSquare_cb t = Some b \<and> \<not> friendly E (game_p0 t) sq \<and>
             sq \<notin> set (hintSquares t)"
  then show eq: "handleSquareClick_cb E t sq = t\<lparr>selectedSquare_cb := None, hintSquares := []\<rparr>"
    by (simp add: click_unhinted_cb)
  show "lastMove_p0 (handleSquareClick_cb E t sq) = lastMove_p0 t"
    by (simp add: eq lastMove_p0_def)
qed

theorem cancel_selection_witness:
  "selectedSquare (app_run line_engine [Click ''e2'']) = Some ''e2'' \<and>
   \<not> friendly line_engine (game (app_run line_engine [Click ''e2''])) ''e5'' \<and>
   ''e5'' \<notin> set (validMoves line_engine (app_run line_engine [Click ''e2''])) \<and>
   accepts_only_listed line_engine (game (app_run line_engine [Click ''e2''])) \<and>
   handleSquareClick line_engine (app_run line_engine [Click ''e2'']) ''e5''
     = (app_run line_engine [Click ''e2''])\<lparr>selectedSquare := None\<rparr> \<and>
   selectedSquare_cb e2_selected_cb = Some ''e2'' \<and>
   \<not> friendly line_engine (game_p0 e2_selected_cb) ''e5'' \<and>
   ''e5'' \<notin> set (hintSquares e2_selected_cb) \<and>
   handleSquareClick_cb line_engine e2_selected_cb ''e5''
     = e2_selected_cb\<lparr>selectedSquare_cb := None, hintSquares := []\<rparr>"
proof -
  from e2_selected_facts e2_selected_cb_facts
    line_engine_listed [of "game (app_run line_engine [Click ''e2''])"]
    cancel_selection
      [of line_engine "[Click ''e2'']" "''e2''" "''e5''" e2_selected_cb "''e2''"]
  show ?thesis by blast
qed


text \<open>
  Clicks alone keep the selection on a piece of the side to move in both interfaces, and so do
  the resets of \<^verbatim>\<open>src/App.tsx\<close>, whose \<open>resetGame\<close> clears the selection; hints exist only
  with such a selection.
\<close>

lemma clicks_keep_selection_own:
  "(\<forall>a. selectedSquare (app_run E evs) = Some a \<longrightarrow> friendly E (game (app_run E evs)) a) \<and>
   (validMoves E (app_run E evs) \<noteq> [] \<longrightarrow>
      (\<exists>a. selectedSquare (app_run E evs) = Some a \<and> friendly E (game (app_run E evs)) a)) \<and>
   (\<forall>b. selectedSquare_cb (foldl (handleSquareClick_cb E) (initial_p0 E) sqs) = Some b \<longrightarrow>
      friendly E (game_p0 (foldl (handleSquareClick_cb E) (initial_p0 E) sqs)) b) \<and>
   (hintSquares (foldl (handleSquareClick_cb E) (initial_p0 E) sqs) \<noteq> [] \<longrightarrow>
      (\<exists>b. selectedSquare_cb (foldl (handleSquareClick_cb E) (initial_p0 E) sqs) = Some b \<and>
           friendly E (game_p0 (foldl (handleSquareClick_cb E) (initial_p0 E) sqs)) b \<and>
           hintSquares (foldl (handleSquareClick_cb E) (initial_p0 E) sqs)
             = destinations E (game_p0 (foldl (handleSquareClick_cb E) (initial_p0 E) sqs)) b))"
proof (intro conjI)
  show own: "\<forall>a. selectedSquare (app_run E evs) = Some a \<longrightarrow> friendly E (game (app_run E evs)) a"
    by (simp add: selected_friendly)
  show "validMoves E (app_run E evs) \<noteq> [] \<longrightarrow>
      (\<exists>a. selectedSquare (app_run E evs) = Some a \<and> friendly E (game (app_run E evs)) a)"
    using own by (cases "selectedSquare (app_run E evs)") (simp_all add: validMoves_def)
next
  let ?t = "foldl (handleSquareClick_cb E) (initial_p0 E) sqs"
  have inv: "board_inv E ?t" by (rule board_inv_clicks)
  show "\<forall>b. selectedSquare_cb ?t = Some b \<longrightarrow> friendly E (game_p0 ?t) b"
    using inv by (auto simp: board_inv_def split: option.splits)
  show "hintSquares ?t \<noteq> [] \<longrightarrow>
      (\<exists>b. selectedSquare_cb ?t = Some b \<and> friendly E (game_p0 ?t) b \<and>
           hintSquares ?t = destinations E (game_p0 ?t) b)"
    using inv by (auto simp: board_inv_def split: option.splits)
qed

text \<open>
  C9, the interface with undo at the failing input. \<open>resetGame\<close> of \<^verbatim>\<open>unnamed/part_000\<close>
  replaces the game and leaves the selection and the hints of the mounted board as they are.
  After the clicks f2, f3 (1. f3) and e7 (black pawn selected, hints e6 and e5), New Game
  gives the starting position with White to move while e7 is still selected and its hints are
  still shown: the selected square holds a piece of the side that is not to move.
\<close>

theorem reset_leaves_stale_selection:
  "selectedSquare_cb after_reset_p0 = Some ''e7'' \<and>
   hintSquares after_reset_p0 = [''e6'', ''e5''] \<and>
   fen line_engine (game_p0 after_reset_p0) = Start \<and>
   turn line_engine (game_p0 after_reset_p0) = White \<and>
   get line_engine (game_p0 after_reset_p0) ''e7'' = Some \<lparr>ptype = Pawn, color = Black\<rparr> \<and>
   \<not> friendly line_engine (game_p0 after_reset_p0) ''e7'' \<and>
   selectedSquare (app_run line_engine [Click ''f2'', Click ''f3'', Click ''e7'', NewGame])
     = None"
  by code_simp

text \<open>
  C6 (as amended). While the game is not over, a click on a square that holds a piece of the
  side to move and is not the selected one makes it the selected square and makes the hints
  exactly the engine's destinations for it at the current game, be the list empty or not.
  \<^verbatim>\<open>src/App.tsx\<close> tests \<open>isGameOver\<close> first; \<^verbatim>\<open>ChessBoard\<close> makes no such test, so
  for it the statement holds in every state.
\<close>

theorem own_piece_click_selects:
  "(\<not> isGameOver E (game s) \<and> friendly E (game s) sq \<and> selectedSquare s \<noteq> Some sq
      \<longrightarrow>
      selectedSquare (handleSquareClick E s sq) = Some sq \<and>
      validMoves E (handleSquareClick E s sq) = destinations E (game s) sq \<and>
      set (validMoves E (handleSquareClick E s sq)) = move_to ` set (moves E (game s) sq) \<and>
      game (handleSquareClick E s sq) = game s) \<and>
   (friendly E (game_p0 t) sq \<and> selectedSquare_cb t \<noteq> Some sq
      \<longrightarrow>
      selectedSquare_cb (handleSquareClick_cb E t sq) = Some sq \<and>
      hintSquares (handleSquareClick_cb E t sq) = destinations E (game_p0 t) sq \<and>
      set (hintSquares (handleSquareClick_cb E t sq)) = move_to ` set (moves E (game_p0 t) sq) \<and>
      game_p0 (handleSquareClick_cb E t sq) = game_p0 t)"
  by (simp add: click_friendly click_friendly_cb validMoves_def getValidMoves_def
        destinations_def)

lemma start_facts:
  "\<not> isGameOver line_engine (game (initial line_engine))"
  "friendly line_engine (game (initial line_engine)) ''e2''"
  "selectedSquare (initial line_engine) \<noteq> Some ''e2''"
  "friendly line_engine (game_p0 (initial_p0 line_engine)) ''a1''"
  "selectedSquare_cb (initial_p0 line_engine) \<noteq> Some ''a1''"
  "destinations line_engine (game (initial line_engine)) ''e2'' = [''e3'', ''e4'']"
  "destinations line_engine (game_p0 (initial_p0 line_engine)) ''a1'' = []"
  by code_simp+

theorem own_piece_click_selects_witness:
  "\<not> isGameOver line_engine (game (initial line_engine)) \<and>
   friendly line_engine (game (initial line_engine)) ''e2'' \<and>
   selectedSquare (initial line_engine) \<noteq> Some ''e2'' \<and>
   selectedSquare (handleSquareClick line_engine (initial line_engine) ''e2'') = Some ''e2'' \<and>
   validMoves line_engine (handleSquareClick line_engine (initial line_engine) ''e2'')
     = [''e3'', ''e4''] \<and>
   friendly line_engine (game_p0 (initial_p0 line_engine)) ''a1'' \<and>
   selectedSquare_cb (initial_p0 line_engine) \<noteq> Some ''a1'' \<and>
   selectedSquare_cb (handleSquareClick_cb line_engine (initial_p0 line_engine) ''a1'')
     = Some ''a1'' \<and>
   hintSquares (handleSquareClick_cb line_engine (initial_p0 line_engine) ''a1'') = []"
proof -
  from start_facts
    own_piece_click_selects
      [of line_engine "initial line_engine" "''e2''" "initial_p0 line_engine"]
    own_piece_click_selects
      [of line_engine "initial line_engine" "''a1''" "initial_p0 line_engine"]
  show ?thesis by metis
qed

text \<open>
  C6, counterexample to the claim as stated. After 1. f3 e5 2. g4 Qh4# in \<^verbatim>\<open>src/App.tsx\<close>
  the white king's square e1 holds a piece of the side to move and nothing is selected, yet
  the click on e1 selects nothing: the game is over and the click is refused.
\<close>

theorem select_refused_after_mate:
  "friendly line_engine (game after_mate) ''e1'' \<and>
   selectedSquare after_mate = None \<and>
   isGameOver line_engine (game after_mate) \<and>
   selectedSquare (handleSquareClick line_engine after_mate ''e1'') \<noteq> Some ''e1''"
  by code_simp


section \<open>Game end and undo in the interface with undo\<close>

lemma undoMove_frame:
  "game_p0 (snd (undoMove E t)) = Chess_fen E (fen E (undo E (game_p0 t)))"
  "moveHistory_p0 (snd (undoMove E t)) = butlast (moveHistory_p0 t)"
  "selectedSquare_cb (snd (undoMove E t)) = selectedSquare_cb t"
  "hintSquares (snd (undoMove E t)) = hintSquares t"
  "fst (undoMove E t) = Undefined"
  by (simp_all add: undoMove_def Let_def updateStatus_frame)

text \<open>
  The history shrinks by one on undo, and the \<open>lastMove\<close> prop follows the new last entry.
\<close>

lemma undo_button_history:
  "moveHistory_p0 t \<noteq> [] \<Longrightarrow>
   length (moveHistory_p0 (undo_button E t)) = length (moveHistory_p0 t) - 1 \<and>
   lastMove_p0 (undo_button E t) =
     (if butlast (moveHistory_p0 t) = [] then None
      else Some (last (butlast (moveHistory_p0 t))))"
  by (simp add: undo_button_def undoMove_frame lastMove_p0_def)

text \<open>
  What \<^verbatim>\<open>undoMove\<close> does to the position after an accepted move: the game in the state is
  the object rebuilt from the FEN of the new position, so when that object has nothing to
  undo the position after undo is the position after the move.
\<close>

lemma undo_after_move_keeps_position:
  assumes "move E (game_p0 t) m = Some (g', r)"
    and "undo E (Chess_fen E (fen E g')) = Chess_fen E (fen E g')"
    and "fen E (Chess_fen E (fen E g')) = fen E g'"
  shows "fen E (game_p0 (undo_button E (snd (makeMove_p0 E t m)))) = fen E g'"
  using assms by (simp add: undo_button_def undoMove_frame makeMove_p0_accepted)

text \<open>
  This holds for any engine whatever: after an accepted move the state keeps the FEN of the new
  position and nothing of the old one, so two moves that arrive at the same FEN from different
  positions are followed by the same game after undo.
\<close>

lemma undo_depends_on_fen_only:
  assumes "move E (game_p0 t1) m1 = Some (g1, r1)"
    and "move E (game_p0 t2) m2 = Some (g2, r2)"
    and "fen E g1 = fen E g2"
  shows "game_p0 (undo_button E (snd (makeMove_p0 E t1 m1)))
           = game_p0 (undo_button E (snd (makeMove_p0 E t2 m2)))"
  using assms by (simp add: undo_button_def undoMove_frame makeMove_p0_accepted)

text \<open>Once set, \<open>gameEnded\<close> survives every click and every undo.\<close>

lemma gameEnded_click: "gameEnded t \<Longrightarrow> gameEnded (handleSquareClick_cb E t sq)"
  by (auto simp: handleSquareClick_cb_def makeMove_p0_def updateStatus_gameEnded
           split: option.splits)

lemma gameEnded_undo: "gameEnded t \<Longrightarrow> gameEnded (undo_button E t)"
  by (simp add: undo_button_def undoMove_def Let_def updateStatus_gameEnded)

text \<open>
  C1, the interface with undo at the failing input. After 1. f3 e5 2. g4 Qh4# the position is
  checkmate and \<open>gameEnded\<close> is set, with nothing selected; the next click, on the white king's
  square e1, is processed all the same and selects e1.
\<close>

theorem click_after_checkmate_selects:
  "isCheckmate line_engine (game_p0 after_mate_p0) \<and>
   gameEnded after_mate_p0 \<and>
   status after_mate_p0 = ''Game Over - Checkmate! Black wins.'' \<and>
   selectedSquare_cb after_mate_p0 = None \<and>
   selectedSquare_cb (handleSquareClick_cb line_engine after_mate_p0 ''e1'') = Some ''e1''"
  by code_simp

text \<open>
  C4, at the failing input. From the initial state the clicks f2, f3 play 1. f3; the Undo
  button then empties the history and clears the last move, but the position stays the one
  after 1. f3 instead of returning to the start.
\<close>

theorem undo_leaves_position_after_f3:
  "fen line_engine (game_p0 (initial_p0 line_engine)) = Start \<and>
   fen line_engine (game_p0 after_f3_p0) = After_f3 \<and>
   length (moveHistory_p0 after_f3_p0) = 1 \<and>
   fen line_engine (game_p0 (session_step line_engine after_f3_p0 UndoClick)) = After_f3 \<and>
   moveHistory_p0 (session_step line_engine after_f3_p0 UndoClick) = [] \<and>
   lastMove_p0 (session_step line_engine after_f3_p0 UndoClick) = None"
  by code_simp

text \<open>
  C10, at the failing input. After 1. f3 e5 2. g4 Qh4# the Undo button is enabled and takes
  the history from four entries to three while \<open>gameEnded\<close> stays set, but the position stays
  the checkmate instead of going back one ply.
\<close>

theorem undo_after_checkmate:
  "gameEnded after_mate_p0 \<and>
   length (moveHistory_p0 after_mate_p0) = 4 \<and>
   fen line_engine (game_p0 after_mate_p0) = Mate \<and>
   length (moveHistory_p0 (session_step line_engine after_mate_p0 UndoClick)) = 3 \<and>
   fen line_engine (game_p0 (session_step line_engine after_mate_p0 UndoClick)) = Mate \<and>
   gameEnded (session_step line_engine after_mate_p0 UndoClick)"
  by code_simp

text \<open>
  C5 (as amended). With an empty history the Undo button is disabled: a press runs no handler
  and the state is what it was. \<open>undoMove\<close> itself returns no value; were it run on an empty
  history whose game object has nothing to undo, the serialised position, the history, the
  last move, the selection and the hints would all be as before.
\<close>

theorem undo_on_empty_history:
  "moveHistory_p0 t = [] \<longrightarrow>
     undo_button E t = t \<and>
     fst (undoMove E t) = Undefined \<and>
     (undo E (game_p0 t) = game_p0 t \<and>
      fen E (Chess_fen E (fen E (game_p0 t))) = fen E (game_p0 t) \<longrightarrow>
        fen E (game_p0 (snd (undoMove E t))) = fen E (game_p0 t) \<and>
        moveHistory_p0 (snd (undoMove E t)) = [] \<and>
        lastMove_p0 (snd (undoMove E t)) = lastMove_p0 t \<and>
        selectedSquare_cb (snd (undoMove E t)) = selectedSquare_cb t \<and>
        hintSquares (snd (undoMove E t)) = hintSquares t)"
  by (simp add: undo_button_def undoMove_frame lastMove_p0_def)

lemma start_p0_facts:
  "moveHistory_p0 (initial_p0 line_engine) = []"
  "undo line_engine (game_p0 (initial_p0 line_engine)) = game_p0 (initial_p0 line_engine)"
  "fen line_engine (Chess_fen line_engine (fen line_engine (game_p0 (initial_p0 line_engine))))
     = fen line_engine (game_p0 (initial_p0 line_engine))"
  by code_simp+

theorem undo_on_empty_history_witness:
  "moveHistory_p0 (initial_p0 line_engine) = [] \<and>
   undo line_engine (game_p0 (initial_p0 line_engine)) = game_p0 (initial_p0 line_engine) \<and>
   fen line_engine (Chess_fen line_engine (fen line_engine (game_p0 (initial_p0 line_engine))))
     = fen line_engine (game_p0 (initial_p0 line_engine)) \<and>
   undo_button line_engine (initial_p0 line_engine) = initial_p0 line_engine \<and>
   fen line_engine (game_p0 (snd (undoMove line_engine (initial_p0 line_engine))))
     = fen line_engine (game_p0 (initial_p0 line_engine)) \<and>
   moveHistory_p0 (snd (undoMove line_engine (initial_p0 line_engine))) = []"
proof -
  from start_p0_facts undo_on_empty_history [of "initial_p0 line_engine" line_engine]
  show ?thesis by blast
qed

text \<open>
  C5, counterexample to the claim as stated. On the empty history of the initial state
  \<open>undoMove\<close> does not return \<open>false\<close>: it returns nothing.
\<close>

theorem undoMove_returns_no_boolean:
  "moveHistory_p0 (initial_p0 line_engine) = [] \<and>
   fst (undoMove line_engine (initial_p0 line_engine)) \<noteq> Boolean False"
  by (simp add: initial_p0_def undoMove_frame)

end
